theory Spec2Isabelle
  imports Main
begin

section \<open>Python values, exceptions and string interpolation\<close>

text \<open>
  The module \<^verbatim>\<open>allowfail.py\<close> is one class, \<^verbatim>\<open>AllowFail\<close>, usable as a decorator and as a
  context manager, and one named tuple, \<^verbatim>\<open>AllowFailResult\<close>. Its behaviour rests on three
  things of the language that are modelled first: exception objects and their classes, the
  \<^verbatim>\<open>%\<close> operator on a string and a tuple, and the \<^verbatim>\<open>with\<close> statement.

  An exception class is a constructor of \<open>exn_class\<close>. \<open>UserError n\<close> is a class defined by
  the user as a subclass of \<^verbatim>\<open>Exception\<close> with the inherited constructor. The classes that
  are not subclasses of \<^verbatim>\<open>Exception\<close> are \<^verbatim>\<open>BaseException\<close> itself and the three
  process-level signals.
\<close>

datatype exn_class =
    BaseException
  | KeyboardInterrupt
  | SystemExit
  | GeneratorExit
  | Exception
  | ValueError
  | TypeError
  | RuntimeError
  | AttributeError
  | UserError string

text \<open>\<^verbatim>\<open>issubclass(c, Exception)\<close>: what the clause \<^verbatim>\<open>except Exception\<close> catches.\<close>

fun is_Exception :: "exn_class \<Rightarrow> bool" where
  "is_Exception BaseException = False"
| "is_Exception KeyboardInterrupt = False"
| "is_Exception SystemExit = False"
| "is_Exception GeneratorExit = False"
| "is_Exception c = True"

text \<open>
  An exception object has its class and the message it was built with; \<open>None\<close> is an
  object built with no argument, as \<^verbatim>\<open>ValueError()\<close>. Two objects are the same when they are
  equal as values.
\<close>

record exn =
  cls :: exn_class
  message :: "string option"

text \<open>\<^verbatim>\<open>typ()\<close>: the class called with no argument.\<close>

definition instantiate :: "exn_class \<Rightarrow> exn" where
  "instantiate typ = \<lparr>cls = typ, message = None\<rparr>"

text \<open>\<^verbatim>\<open>str(err)\<close> of an exception object: its message, the empty string when it has none.\<close>

definition str_exn :: "exn \<Rightarrow> string" where
  "str_exn e = (case message e of None \<Rightarrow> [] | Some m \<Rightarrow> m)"

text \<open>The values that are interpolated into a template.\<close>

datatype pyval =
    PStr string
  | PInt int
  | PNone
  | PExn exn

fun digits :: "nat \<Rightarrow> string" where
  "digits n =
     (if n < 10 then [char_of (48 + n)]
      else digits (n div 10) @ [char_of (48 + n mod 10)])"

declare digits.simps [simp del]

definition str_int :: "int \<Rightarrow> string" where
  "str_int i = (if i < 0 then CHR ''-'' # digits (nat (- i)) else digits (nat i))"

fun py_str :: "pyval \<Rightarrow> string" where
  "py_str (PStr s) = s"
| "py_str (PInt i) = str_int i"
| "py_str PNone = ''None''"
| "py_str (PExn e) = str_exn e"

text \<open>
  \<^verbatim>\<open>template % params\<close> with \<^verbatim>\<open>params\<close> a tuple, read from left to right as CPython does.
  The conversions modelled are \<^verbatim>\<open>%s\<close>, \<^verbatim>\<open>%d\<close> and \<^verbatim>\<open>%%\<close>, without flags, width,
  precision or mapping keys. The order of the checks is CPython's: a template that ends
  after \<^verbatim>\<open>%\<close> is incomplete whatever the arguments; \<^verbatim>\<open>%%\<close> takes no argument; every
  other conversion takes the next argument before its character is looked at; arguments left
  over are found at the end only. The text of the message that CPython completes with the
  type of the offending argument is given without that completion.

  On a template with any other character after \<^verbatim>\<open>%\<close> (\<^verbatim>\<open>%r\<close>, \<^verbatim>\<open>%5d\<close>,
  \<^verbatim>\<open>%(key)s\<close>) the function below is not CPython's operator: it answers \<^verbatim>\<open>ValueError\<close>
  where CPython may well format. \<open>plain_conversions\<close> tells the templates on which the two
  agree, and a statement about an interpolation that raises is made for those templates
  only.
\<close>

definition format_error :: "exn_class \<Rightarrow> string \<Rightarrow> exn" where
  "format_error c m = \<lparr>cls = c, message = Some m\<rparr>"

definition prepend :: "string \<Rightarrow> exn + string \<Rightarrow> exn + string" where
  "prepend s r = (case r of Inl x \<Rightarrow> Inl x | Inr t \<Rightarrow> Inr (s @ t))"

fun interpolate :: "string \<Rightarrow> pyval list \<Rightarrow> exn + string" where
  "interpolate [] [] = Inr []"
| "interpolate [] (a # as) =
     Inl (format_error TypeError ''not all arguments converted during string formatting'')"
| "interpolate [c] as =
     (if c = CHR ''%'' then Inl (format_error ValueError ''incomplete format'')
      else prepend [c] (interpolate [] as))"
| "interpolate (c # k # rest) as =
     (if c \<noteq> CHR ''%'' then prepend [c] (interpolate (k # rest) as)
      else if k = CHR ''%'' then prepend ''%'' (interpolate rest as)
      else (case as of
              [] \<Rightarrow> Inl (format_error TypeError ''not enough arguments for format string'')
            | a # as' \<Rightarrow>
                if k = CHR ''s'' then prepend (py_str a) (interpolate rest as')
                else if k = CHR ''d'' then
                  (case a of
                     PInt i \<Rightarrow> prepend (str_int i) (interpolate rest as')
                   | _ \<Rightarrow> Inl (format_error TypeError ''%d format: a number is required''))
                else Inl (format_error ValueError ''unsupported format character'')))"

fun plain_conversions :: "string \<Rightarrow> bool" where
  "plain_conversions [] = True"
| "plain_conversions [c] = True"
| "plain_conversions (c # k # rest) =
     (if c \<noteq> CHR ''%'' then plain_conversions (k # rest)
      else (k = CHR ''%'' \<or> k = CHR ''s'' \<or> k = CHR ''d'') \<and> plain_conversions rest)"

section \<open>The logging module\<close>

text \<open>
  A logger is known by the name of its channel. \<^verbatim>\<open>Logger.warning(msg, *args)\<close> hands one
  record to the channel: the level, the template and its arguments, interpolated only when
  the record is read (\<^verbatim>\<open>LogRecord.getMessage\<close>). The world keeps the records handed to
  loggers, in order, beside the store that the wrapped code and a custom handler work on.
  The call returns nothing and does not raise.
\<close>

datatype level = DEBUG | INFO | WARNING | ERROR | CRITICAL

record logger =
  logger_name :: string

record log_record =
  rec_name :: string
  rec_level :: level
  rec_msg :: string
  rec_args :: "pyval list"

definition getMessage :: "log_record \<Rightarrow> exn + string" where
  "getMessage r = interpolate (rec_msg r) (rec_args r)"

record 's world =
  records :: "log_record list"
  store :: 's

definition getLogger :: "string \<Rightarrow> logger" where
  "getLogger n = \<lparr>logger_name = n\<rparr>"

definition warning :: "logger \<Rightarrow> string \<Rightarrow> pyval list \<Rightarrow> 's world \<Rightarrow> (exn + unit) \<times> 's world" where
  "warning lg msg args w =
     (Inr (),
      w\<lparr>records := records w @
          [\<lparr>rec_name = logger_name lg, rec_level = WARNING, rec_msg = msg, rec_args = args\<rparr>]\<rparr>)"

section \<open>AllowFail\<close>

text \<open>
  \<^verbatim>\<open>AllowFailResult = namedtuple("AllowFailResult", ["ok", "result"])\<close>. The field
  \<^verbatim>\<open>result\<close> holds any object: what the function returned, or the exception it raised.
\<close>

datatype 'v any = Returned 'v | Raised exn

record 'v AllowFailResult =
  ok :: bool
  result :: "'v any"

text \<open>
  A computation takes the world and gives back the world it leaves, with either the
  exception it raised (\<open>Inl\<close>) or the value it returned (\<open>Inr\<close>).

  The error handler of an instance is either the instance's own bound method
  \<^verbatim>\<open>self.on_error\<close>, the default of \<^verbatim>\<open>options.pop("on_error", self.on_error)\<close>, or the
  callable given as \<^verbatim>\<open>on_error\<close>. A callable is called with the label and the error; what
  it returns is dropped.
\<close>

type_synonym ('s, 'r) comp = "'s world \<Rightarrow> (exn + 'r) \<times> 's world"

datatype 's handler =
    Own_on_error
  | Callable "string \<Rightarrow> exn \<Rightarrow> ('s, unit) comp"

record 's guard =
  label :: string
  params :: "pyval list"
  error_handler :: "'s handler"
  logger :: logger

text \<open>The class attribute \<^verbatim>\<open>logger = logging.getLogger("OnError")\<close>.\<close>

definition class_logger :: logger where
  "class_logger = getLogger ''OnError''"

text \<open>
  \<^verbatim>\<open>__init__(self, label, *params, **options)\<close>, with the two options it reads,
  \<^verbatim>\<open>on_error\<close> and \<^verbatim>\<open>logger\<close>, each \<open>None\<close> when not given.
\<close>

definition AllowFail ::
  "string \<Rightarrow> pyval list \<Rightarrow> (string \<Rightarrow> exn \<Rightarrow> ('s, unit) comp) option \<Rightarrow> logger option \<Rightarrow> 's guard"
where
  "AllowFail lbl ps on_error_opt logger_opt =
     \<lparr>label = lbl,
      params = ps,
      error_handler = (case on_error_opt of None \<Rightarrow> Own_on_error | Some h \<Rightarrow> Callable h),
      logger = (case logger_opt of None \<Rightarrow> class_logger | Some lg \<Rightarrow> lg)\<rparr>"

text \<open>\<^verbatim>\<open>on_error(self, label, err)\<close>: one warning through the instance's logger.\<close>

definition on_error :: "'s guard \<Rightarrow> string \<Rightarrow> exn \<Rightarrow> ('s, unit) comp" where
  "on_error self lbl err w =
     warning (logger self) ''%s got an error: %s'' [PStr lbl, PExn err] w"

text \<open>
  The call \<^verbatim>\<open>self.error_handler(self.label % self.params, err)\<close>, as both modes write it:
  the label is interpolated first, and a failure there is raised before the handler is
  entered.
\<close>

definition apply_handler :: "'s guard \<Rightarrow> string \<Rightarrow> exn \<Rightarrow> ('s, unit) comp" where
  "apply_handler self lbl err w =
     (case error_handler self of
        Own_on_error \<Rightarrow> on_error self lbl err w
      | Callable h \<Rightarrow> h lbl err w)"

definition report :: "'s guard \<Rightarrow> exn \<Rightarrow> ('s, unit) comp" where
  "report self err w =
     (case interpolate (label self) (params self) of
        Inl x \<Rightarrow> (Inl x, w)
      | Inr lbl \<Rightarrow> apply_handler self lbl err w)"

text \<open>\<^verbatim>\<open>__enter__(self)\<close> returns the instance.\<close>

definition dunder_enter :: "'s guard \<Rightarrow> 's guard" where
  "dunder_enter self = self"

text \<open>
  \<^verbatim>\<open>__exit__(self, typ, val, trbk)\<close>. \<open>typ\<close> is \<open>None\<close> when the block ended without an
  exception and the class of the exception otherwise; a class is true. The traceback is
  not read.
\<close>

definition dunder_exit :: "'s guard \<Rightarrow> exn_class option \<Rightarrow> exn option \<Rightarrow> ('s, bool) comp" where
  "dunder_exit self typ val w =
     (case typ of
        None \<Rightarrow> (Inr True, w)
      | Some t \<Rightarrow>
          (let val' = (case val of None \<Rightarrow> instantiate t | Some v \<Rightarrow> v)
           in case report self val' w of
                (Inl x, w') \<Rightarrow> (Inl x, w')
              | (Inr u, w') \<Rightarrow> (Inr True, w')))"

text \<open>
  The statement \<^verbatim>\<open>with guard: block\<close>. \<^verbatim>\<open>__enter__\<close> returns the instance and does
  nothing else. When the block raises, \<^verbatim>\<open>__exit__\<close> is called with the class and the
  object of the exception; the exception is dropped when \<^verbatim>\<open>__exit__\<close> returns a true value
  and raised again otherwise, and an exception raised by \<^verbatim>\<open>__exit__\<close> itself takes its
  place.
\<close>

definition with_stmt :: "'s guard \<Rightarrow> ('s, unit) comp \<Rightarrow> ('s, unit) comp" where
  "with_stmt g block w =
     (case block w of
        (Inr u, w1) \<Rightarrow>
          (case dunder_exit g None None w1 of
             (Inl x, w2) \<Rightarrow> (Inl x, w2)
           | (Inr b, w2) \<Rightarrow> (Inr (), w2))
      | (Inl e, w1) \<Rightarrow>
          (case dunder_exit g (Some (cls e)) (Some e) w1 of
             (Inl x, w2) \<Rightarrow> (Inl x, w2)
           | (Inr b, w2) \<Rightarrow> if b then (Inr (), w2) else (Inl e, w2)))"

text \<open>
  A function object: what a call does, its \<^verbatim>\<open>__name__\<close> and \<^verbatim>\<open>func_name\<close> attributes
  when it has them, and \<^verbatim>\<open>str(func)\<close>.
\<close>

record ('a, 's, 'v) pyfunc =
  fn_body :: "'a \<Rightarrow> ('s, 'v) comp"
  fn_name :: "string option"
  fn_func_name :: "string option"
  fn_str :: string

definition f_name :: "('a, 's, 'v) pyfunc \<Rightarrow> string" where
  "f_name func =
     (case fn_name func of
        Some n \<Rightarrow> n
      | None \<Rightarrow> (case fn_func_name func of Some n \<Rightarrow> n | None \<Rightarrow> fn_str func))"

text \<open>
  \<^verbatim>\<open>protect\<close>, the function that \<^verbatim>\<open>__call__(self, func)\<close> returns. An
  exception of \<^verbatim>\<open>func\<close> that is no \<^verbatim>\<open>Exception\<close> is not caught. The nested instance is
  built with the defaults: its own \<^verbatim>\<open>on_error\<close> and the class logger.
\<close>

definition protect ::
  "'s guard \<Rightarrow> ('a, 's, 'v) pyfunc \<Rightarrow> 'a \<Rightarrow> ('s, 'v AllowFailResult) comp"
where
  "protect self func args w =
     (case fn_body func args w of
        (Inr v, w1) \<Rightarrow> (Inr \<lparr>ok = True, result = Returned v\<rparr>, w1)
      | (Inl err, w1) \<Rightarrow>
          if is_Exception (cls err) then
            (case with_stmt (AllowFail ''On error handler: %s'' [PStr (f_name func)] None None)
                    (report self err) w1 of
               (Inl x, w2) \<Rightarrow> (Inl x, w2)
             | (Inr u, w2) \<Rightarrow> (Inr \<lparr>ok = False, result = Raised err\<rparr>, w2))
          else (Inl err, w1))"

definition dunder_call :: "'s guard \<Rightarrow> ('a, 's, 'v) pyfunc \<Rightarrow> 'a \<Rightarrow> ('s, 'v AllowFailResult) comp" where
  "dunder_call self func = protect self func"

section \<open>The module's tests and further inputs\<close>

text \<open>
  \<^verbatim>\<open>TestUsage\<close> keeps a list \<^verbatim>\<open>self.cache\<close>, empty after \<^verbatim>\<open>setUp\<close>; its handler
  \<^verbatim>\<open>log\<close> appends what it was called with. The two decorated functions of
  \<^verbatim>\<open>test_decorator\<close> are \<^verbatim>\<open>valueerror\<close> and \<^verbatim>\<open>func\<close>; the block of
  \<^verbatim>\<open>test_contextmanager\<close> is \<^verbatim>\<open>raise ValueError()\<close>. The other inputs are a handler that
  records its call and then raises, a function interrupted from the keyboard, and a callable
  object with neither \<^verbatim>\<open>__name__\<close> nor \<^verbatim>\<open>func_name\<close>.
\<close>

type_synonym cache = "(string \<times> exn) list"

definition setUp :: "cache world" where
  "setUp = \<lparr>records = [], store = []\<rparr>"

definition log :: "string \<Rightarrow> exn \<Rightarrow> (cache, unit) comp" where
  "log lbl err w = (Inr (), w\<lparr>store := store w @ [(lbl, err)]\<rparr>)"

definition test_exception :: exn where
  "test_exception = \<lparr>cls = ValueError, message = Some ''test exception''\<rparr>"

definition valueerror :: "(unit, cache, int) pyfunc" where
  "valueerror =
     \<lparr>fn_body = (\<lambda>args w. (Inl test_exception, w)),
      fn_name = Some ''valueerror'',
      fn_func_name = None,
      fn_str = ''<function valueerror>''\<rparr>"

definition func :: "(unit, cache, int) pyfunc" where
  "func =
     \<lparr>fn_body = (\<lambda>args w. (Inr 1, w)),
      fn_name = Some ''func'',
      fn_func_name = None,
      fn_str = ''<function func>''\<rparr>"

definition raise_ValueError :: "(cache, unit) comp" where
  "raise_ValueError w = (Inl (instantiate ValueError), w)"

definition handler_error :: exn where
  "handler_error = \<lparr>cls = RuntimeError, message = Some ''handler failed''\<rparr>"

definition failing_handler :: "string \<Rightarrow> exn \<Rightarrow> (cache, unit) comp" where
  "failing_handler lbl err w = (Inl handler_error, w\<lparr>store := store w @ [(lbl, err)]\<rparr>)"

definition interrupted :: "(unit, cache, int) pyfunc" where
  "interrupted =
     \<lparr>fn_body = (\<lambda>args w. (Inl (instantiate KeyboardInterrupt), w)),
      fn_name = Some ''interrupted'',
      fn_func_name = None,
      fn_str = ''<function interrupted>''\<rparr>"

definition nameless :: "(unit, cache, int) pyfunc" where
  "nameless =
     \<lparr>fn_body = (\<lambda>args w. (Inl test_exception, w)),
      fn_name = None,
      fn_func_name = None,
      fn_str = ''<callable object>''\<rparr>"

definition raise_KeyboardInterrupt :: "(cache, unit) comp" where
  "raise_KeyboardInterrupt w = (Inl (instantiate KeyboardInterrupt), w)"

section \<open>Evaluation and the nested guard\<close>

lemmas model = protect_def with_stmt_def dunder_exit_def report_def apply_handler_def on_error_def
  warning_def AllowFail_def class_logger_def getLogger_def f_name_def instantiate_def prepend_def
  format_error_def str_exn_def

lemma prepend_Inl: "prepend s r = Inl x \<longleftrightarrow> r = Inl x"
  by (cases r) (simp_all add: prepend_def)

lemma plain_conversions_failures:
  "plain_conversions t \<Longrightarrow> interpolate t ps = Inl x \<Longrightarrow>
     x = format_error ValueError ''incomplete format'' \<or>
     x = format_error TypeError ''not enough arguments for format string'' \<or>
     x = format_error TypeError ''not all arguments converted during string formatting'' \<or>
     x = format_error TypeError ''%d format: a number is required''"
proof (induction t ps rule: interpolate.induct)
  case 1
  then show ?case by simp
next
  case (2 a as)
  then show ?case by simp
next
  case (3 c as)
  then show ?case
    by (cases as) (auto simp: prepend_Inl split: if_splits)
next
  case (4 c k rest as)
  then show ?case
    by (auto simp: prepend_Inl split: if_splits list.splits pyval.splits)
qed

lemma nested_exit:
  "dunder_exit (AllowFail ''On error handler: %s'' [PStr n] None None) (Some t) (Some h) w =
     (Inr True, w\<lparr>records := records w @
        [\<lparr>rec_name = ''OnError'', rec_level = WARNING, rec_msg = ''%s got an error: %s'',
          rec_args = [PStr (''On error handler: '' @ n), PExn h]\<rparr>]\<rparr>)"
  by (simp add: dunder_exit_def report_def AllowFail_def apply_handler_def on_error_def
      warning_def class_logger_def getLogger_def prepend_def)

lemma exit_no_exception: "dunder_exit g None val w = (Inr True, w)"
  by (simp add: dunder_exit_def)

lemma nested_with_raise:
  "block w = (Inl h, w') \<Longrightarrow>
   with_stmt (AllowFail ''On error handler: %s'' [PStr n] None None) block w =
     (Inr (), w'\<lparr>records := records w' @
        [\<lparr>rec_name = ''OnError'', rec_level = WARNING, rec_msg = ''%s got an error: %s'',
          rec_args = [PStr (''On error handler: '' @ n), PExn h]\<rparr>]\<rparr>)"
  by (simp add: with_stmt_def nested_exit)

lemma nested_with_return:
  "block w = (Inr u, w') \<Longrightarrow>
   with_stmt (AllowFail ''On error handler: %s'' [PStr n] None None) block w = (Inr (), w')"
  by (simp add: with_stmt_def exit_no_exception)

lemma protect_caught:
  assumes "fn_body fn args w = (Inl e, w1)" and "is_Exception (cls e)"
  shows "protect g fn args w =
     (case report g e w1 of
        (Inr u, w2) \<Rightarrow> (Inr \<lparr>ok = False, result = Raised e\<rparr>, w2)
      | (Inl h, w2) \<Rightarrow>
          (Inr \<lparr>ok = False, result = Raised e\<rparr>,
           w2\<lparr>records := records w2 @
             [\<lparr>rec_name = ''OnError'', rec_level = WARNING, rec_msg = ''%s got an error: %s'',
               rec_args = [PStr (''On error handler: '' @ f_name fn), PExn h]\<rparr>]\<rparr>))"
proof (cases "report g e w1")
  case (Pair r w2)
  show ?thesis
  proof (cases r)
    case (Inl h)
    with Pair have "report g e w1 = (Inl h, w2)" by simp
    from nested_with_raise [where block = "report g e" and w = w1, OF this] assms show ?thesis
      by (simp add: protect_def \<open>report g e w1 = (Inl h, w2)\<close>)
  next
    case (Inr u)
    with Pair have "report g e w1 = (Inr u, w2)" by simp
    from nested_with_return [where block = "report g e" and w = w1, OF this] assms show ?thesis
      by (simp add: protect_def \<open>report g e w1 = (Inr u, w2)\<close>)
  qed
qed

lemma report_interpolated:
  "interpolate (label g) (params g) = Inr lbl \<Longrightarrow> report g e w = apply_handler g lbl e w"
  by (simp add: report_def)

lemma report_malformed:
  "interpolate (label g) (params g) = Inl x \<Longrightarrow> report g e w = (Inl x, w)"
  by (simp add: report_def)

lemma with_stmt_raise:
  "block w = (Inl e, w1) \<Longrightarrow>
   with_stmt g block w =
     (case report g e w1 of (Inl x, w2) \<Rightarrow> (Inl x, w2) | (Inr u, w2) \<Rightarrow> (Inr (), w2))"
  by (simp add: with_stmt_def dunder_exit_def split: prod.splits sum.splits)

section \<open>Decorator mode\<close>

text \<open>
  C1, as the code has it. When the wrapped function raises an \<^verbatim>\<open>Exception\<close> \<open>e\<close>, the
  protected call returns the result \<^verbatim>\<open>(ok=False, result=e)\<close> with \<open>e\<close> itself and never
  raises, whatever the label and the handler are. When the label interpolates, to \<open>lbl\<close>,
  the handler is applied once, to \<open>lbl\<close> and \<open>e\<close>, in the world the function left; the
  world returned is the handler's, with one record of the nested guard more when the handler
  raised.
\<close>

theorem protect_failure:
  assumes "fn_body fn args w = (Inl e, w1)" and "is_Exception (cls e)"
  shows "fst (protect g fn args w) = Inr \<lparr>ok = False, result = Raised e\<rparr> \<and>
    (interpolate (label g) (params g) = Inr lbl \<longrightarrow>
       protect g fn args w =
         (case apply_handler g lbl e w1 of
            (Inr u, w2) \<Rightarrow> (Inr \<lparr>ok = False, result = Raised e\<rparr>, w2)
          | (Inl h, w2) \<Rightarrow>
              (Inr \<lparr>ok = False, result = Raised e\<rparr>,
               w2\<lparr>records := records w2 @
                 [\<lparr>rec_name = ''OnError'', rec_level = WARNING,
                   rec_msg = ''%s got an error: %s'',
                   rec_args = [PStr (''On error handler: '' @ f_name fn), PExn h]\<rparr>]\<rparr>)))"
proof
  show "fst (protect g fn args w) = Inr \<lparr>ok = False, result = Raised e\<rparr>"
    by (simp add: protect_caught [OF assms] split: prod.splits sum.splits)
next
  show "interpolate (label g) (params g) = Inr lbl \<longrightarrow>
       protect g fn args w =
         (case apply_handler g lbl e w1 of
            (Inr u, w2) \<Rightarrow> (Inr \<lparr>ok = False, result = Raised e\<rparr>, w2)
          | (Inl h, w2) \<Rightarrow>
              (Inr \<lparr>ok = False, result = Raised e\<rparr>,
               w2\<lparr>records := records w2 @
                 [\<lparr>rec_name = ''OnError'', rec_level = WARNING,
                   rec_msg = ''%s got an error: %s'',
                   rec_args = [PStr (''On error handler: '' @ f_name fn), PExn h]\<rparr>]\<rparr>))"
    by (simp add: protect_caught [OF assms] report_interpolated)
qed

theorem protect_failure_witness:
  "fn_body valueerror () setUp = (Inl test_exception, setUp) \<and>
   is_Exception (cls test_exception) \<and>
   interpolate ''test %s'' [PStr ''valueerror''] = Inr ''test valueerror'' \<and>
   protect (AllowFail ''test %s'' [PStr ''valueerror''] (Some log) None) valueerror () setUp =
     (Inr \<lparr>ok = False, result = Raised test_exception\<rparr>,
      \<lparr>records = [], store = [(''test valueerror'', test_exception)]\<rparr>)"
  using protect_failure [where fn = valueerror and args = "()" and w = setUp
      and e = test_exception and ?w1.0 = setUp and lbl = "''test valueerror''"
      and g = "AllowFail ''test %s'' [PStr ''valueerror''] (Some log) None"]
  by (simp add: AllowFail_def apply_handler_def prepend_def
      setUp_def log_def test_exception_def valueerror_def)

text \<open>
  C1 as it is written asks that the handler be invoked on every such call. With the template
  \<^verbatim>\<open>"%s %s"\<close> and the single parameter \<^verbatim>\<open>"a"\<close> the interpolation raises inside the
  nested guard's block: the call still returns \<^verbatim>\<open>(ok=False, result=e)\<close>, but \<^verbatim>\<open>log\<close> is
  never entered (the cache stays empty) and the only report is the nested guard's record of
  the \<^verbatim>\<open>TypeError\<close>.
\<close>

theorem protect_failure_handler_not_invoked:
  "fn_body valueerror () setUp = (Inl test_exception, setUp) \<and>
   is_Exception (cls test_exception) \<and>
   protect (AllowFail ''%s %s'' [PStr ''a''] (Some log) None) valueerror () setUp =
     (Inr \<lparr>ok = False, result = Raised test_exception\<rparr>,
      \<lparr>records =
         [\<lparr>rec_name = ''OnError'', rec_level = WARNING, rec_msg = ''%s got an error: %s'',
           rec_args =
             [PStr ''On error handler: valueerror'',
              PExn \<lparr>cls = TypeError,
                    message = Some ''not enough arguments for format string''\<rparr>]\<rparr>],
       store = []\<rparr>)"
  by (simp add: model
      setUp_def log_def test_exception_def valueerror_def)

text \<open>
  C2. When the wrapped function returns \<open>v\<close>, the protected call returns
  \<^verbatim>\<open>(ok=True, result=v)\<close> and the world is the one the function left: for every guard, so
  for every handler and logger, nothing was reported.
\<close>

theorem protect_success:
  assumes "fn_body fn args w = (Inr v, w1)"
  shows "protect g fn args w = (Inr \<lparr>ok = True, result = Returned v\<rparr>, w1)"
  using assms by (simp add: protect_def)

theorem protect_success_witness:
  "fn_body func () setUp = (Inr 1, setUp) \<and>
   protect (AllowFail ''test %s'' [PStr ''func''] (Some log) None) func () setUp =
     (Inr \<lparr>ok = True, result = Returned 1\<rparr>, \<lparr>records = [], store = []\<rparr>)"
  using protect_success [where fn = func and args = "()" and w = setUp and v = 1 and ?w1.0 = setUp
      and g = "AllowFail ''test %s'' [PStr ''func''] (Some log) None"]
  by (simp add: setUp_def log_def func_def)

text \<open>
  C4. When the wrapped function raises an \<^verbatim>\<open>Exception\<close> \<open>e\<close> and the handler, applied to
  the interpolated label and \<open>e\<close>, raises \<open>h\<close>, the protected call returns
  \<^verbatim>\<open>(ok=False, result=e)\<close> and does not raise. The handler's world gains one record, a
  warning on the channel \<^verbatim>\<open>OnError\<close> whose label is \<^verbatim>\<open>"On error handler: "\<close> followed by
  the function's name: its \<^verbatim>\<open>__name__\<close> when it has one, else its \<^verbatim>\<open>func_name\<close> when it
  has one, else \<^verbatim>\<open>str(func)\<close>.
\<close>

theorem protect_handler_raises:
  assumes "fn_body fn args w = (Inl e, w1)" and "is_Exception (cls e)"
    and "interpolate (label g) (params g) = Inr lbl"
    and "apply_handler g lbl e w1 = (Inl h, w2)"
  shows "protect g fn args w =
      (Inr \<lparr>ok = False, result = Raised e\<rparr>,
       w2\<lparr>records := records w2 @
         [\<lparr>rec_name = ''OnError'', rec_level = WARNING, rec_msg = ''%s got an error: %s'',
           rec_args = [PStr (''On error handler: '' @ f_name fn), PExn h]\<rparr>]\<rparr>) \<and>
    (case fn_name fn of
       Some n \<Rightarrow> f_name fn = n
     | None \<Rightarrow> (case fn_func_name fn of Some n \<Rightarrow> f_name fn = n | None \<Rightarrow> f_name fn = fn_str fn))"
  using assms(3,4)
  by (simp add: protect_caught [OF assms(1,2)] report_interpolated f_name_def
      split: option.splits)

theorem protect_handler_raises_witness:
  "fn_body nameless () setUp = (Inl test_exception, setUp) \<and>
   is_Exception (cls test_exception) \<and>
   interpolate ''test %s'' [PStr ''a''] = Inr ''test a'' \<and>
   failing_handler ''test a'' test_exception setUp =
     (Inl handler_error, \<lparr>records = [], store = [(''test a'', test_exception)]\<rparr>) \<and>
   protect (AllowFail ''test %s'' [PStr ''a''] (Some failing_handler) None) nameless () setUp =
     (Inr \<lparr>ok = False, result = Raised test_exception\<rparr>,
      \<lparr>records =
         [\<lparr>rec_name = ''OnError'', rec_level = WARNING, rec_msg = ''%s got an error: %s'',
           rec_args = [PStr ''On error handler: <callable object>'', PExn handler_error]\<rparr>],
       store = [(''test a'', test_exception)]\<rparr>)"
  using protect_handler_raises [where fn = nameless and args = "()" and w = setUp
      and e = test_exception and ?w1.0 = setUp and lbl = "''test a''"
      and g = "AllowFail ''test %s'' [PStr ''a''] (Some failing_handler) None"
      and h = handler_error
      and ?w2.0 = "\<lparr>records = [], store = [(''test a'', test_exception)]\<rparr>"]
  by (simp add: AllowFail_def apply_handler_def prepend_def f_name_def
      setUp_def test_exception_def handler_error_def failing_handler_def nameless_def)

text \<open>
  C8. With a custom handler \<open>h\<close> and a custom logger \<open>lg\<close>, a failure \<open>x\<close> of \<open>h\<close> is
  reported by one call of \<^verbatim>\<open>warning\<close> on the logger \<^verbatim>\<open>getLogger("OnError")\<close>, in the world
  \<open>h\<close> left: \<open>h\<close> is not applied again and \<open>lg\<close> receives nothing. The nested guard has
  the instance's own \<^verbatim>\<open>on_error\<close> as handler and the class logger as logger.
\<close>

theorem handler_failure_goes_to_default_guard:
  assumes "fn_body fn args w = (Inl e, w1)" and "is_Exception (cls e)"
    and "interpolate l ps = Inr lbl"
    and "h lbl e w1 = (Inl x, w2)"
  shows "protect (AllowFail l ps (Some h) (Some lg)) fn args w =
      (Inr \<lparr>ok = False, result = Raised e\<rparr>,
       snd (warning (getLogger ''OnError'') ''%s got an error: %s''
              [PStr (''On error handler: '' @ f_name fn), PExn x] w2)) \<and>
    error_handler (AllowFail ''On error handler: %s'' [PStr (f_name fn)] None None :: 's guard) =
      Own_on_error \<and>
    logger (AllowFail ''On error handler: %s'' [PStr (f_name fn)] None None :: 's guard) =
      getLogger ''OnError''"
proof -
  let ?g = "AllowFail l ps (Some h) (Some lg)"
  have "report ?g e w1 = (Inl x, w2)"
    using assms(3,4) by (simp add: report_def AllowFail_def apply_handler_def)
  then have "protect ?g fn args w =
      (Inr \<lparr>ok = False, result = Raised e\<rparr>,
       snd (warning (getLogger ''OnError'') ''%s got an error: %s''
              [PStr (''On error handler: '' @ f_name fn), PExn x] w2))"
    by (simp add: protect_caught [OF assms(1,2)] warning_def getLogger_def)
  then show ?thesis
    by (simp add: AllowFail_def class_logger_def)
qed

theorem handler_failure_goes_to_default_guard_witness:
  "fn_body valueerror () setUp = (Inl test_exception, setUp) \<and>
   is_Exception (cls test_exception) \<and>
   interpolate ''test %s'' [PStr ''valueerror''] = Inr ''test valueerror'' \<and>
   failing_handler ''test valueerror'' test_exception setUp =
     (Inl handler_error, \<lparr>records = [], store = [(''test valueerror'', test_exception)]\<rparr>) \<and>
   protect (AllowFail ''test %s'' [PStr ''valueerror''] (Some failing_handler)
              (Some (getLogger ''mine''))) valueerror () setUp =
     (Inr \<lparr>ok = False, result = Raised test_exception\<rparr>,
      \<lparr>records =
         [\<lparr>rec_name = ''OnError'', rec_level = WARNING, rec_msg = ''%s got an error: %s'',
           rec_args = [PStr ''On error handler: valueerror'', PExn handler_error]\<rparr>],
       store = [(''test valueerror'', test_exception)]\<rparr>)"
  using handler_failure_goes_to_default_guard [where fn = valueerror and args = "()"
      and w = setUp and e = test_exception and ?w1.0 = setUp and l = "''test %s''"
      and ps = "[PStr ''valueerror'']" and lbl = "''test valueerror''" and h = failing_handler
      and x = handler_error
      and ?w2.0 = "\<lparr>records = [], store = [(''test valueerror'', test_exception)]\<rparr>"
      and lg = "getLogger ''mine''"]
  by (simp add: model
      setUp_def test_exception_def valueerror_def handler_error_def failing_handler_def)

section \<open>Scoped-block mode\<close>

text \<open>
  C3, as the code has it. When the block raises \<open>e\<close>, the label interpolates to \<open>lbl\<close> and
  the handler, applied to \<open>lbl\<close> and \<open>e\<close>, returns, the \<^verbatim>\<open>with\<close> statement completes
  normally in the world the handler left: one application of the handler, and nothing
  raised past the block.
\<close>

theorem with_stmt_suppresses:
  assumes "block w = (Inl e, w1)"
    and "interpolate (label g) (params g) = Inr lbl"
    and "apply_handler g lbl e w1 = (Inr u, w2)"
  shows "with_stmt g block w = (Inr (), w2)"
  using assms by (simp add: with_stmt_raise report_interpolated)

theorem with_stmt_suppresses_witness:
  "raise_ValueError setUp = (Inl (instantiate ValueError), setUp) \<and>
   interpolate ''test %s'' [PStr ''contextmanager''] = Inr ''test contextmanager'' \<and>
   with_stmt (AllowFail ''test %s'' [PStr ''contextmanager''] (Some log) None)
       raise_ValueError setUp =
     (Inr (), \<lparr>records = [],
               store = [(''test contextmanager'', \<lparr>cls = ValueError, message = None\<rparr>)]\<rparr>)"
  using with_stmt_suppresses [where block = raise_ValueError and w = setUp
      and e = "instantiate ValueError" and ?w1.0 = setUp and lbl = "''test contextmanager''"
      and g = "AllowFail ''test %s'' [PStr ''contextmanager''] (Some log) None"
      and u = "()"
      and ?w2.0 = "\<lparr>records = [],
               store = [(''test contextmanager'', \<lparr>cls = ValueError, message = None\<rparr>)]\<rparr>"]
  by (simp add: AllowFail_def apply_handler_def prepend_def instantiate_def
      setUp_def log_def raise_ValueError_def)

text \<open>
  C3 as it is written holds for every guard and block. With a handler that raises, the
  handler's exception leaves the \<^verbatim>\<open>with\<close> statement.
\<close>

theorem with_stmt_handler_escapes:
  "with_stmt (AllowFail ''test %s'' [PStr ''contextmanager''] (Some failing_handler) None)
       raise_ValueError setUp =
     (Inl handler_error,
      \<lparr>records = [],
       store = [(''test contextmanager'', \<lparr>cls = ValueError, message = None\<rparr>)]\<rparr>)"
  by (simp add: model
      setUp_def raise_ValueError_def handler_error_def failing_handler_def)

text \<open>
  C6. \<^verbatim>\<open>__exit__\<close> called with a class and no value does what it does when called with
  the object built from that class with no argument; when the label interpolates, that object
  is what the handler is applied to.
\<close>

theorem exit_without_value:
  "dunder_exit g (Some t) None w =
     dunder_exit g (Some t) (Some \<lparr>cls = t, message = None\<rparr>) w \<and>
   (interpolate (label g) (params g) = Inr lbl \<longrightarrow>
      dunder_exit g (Some t) None w =
        (case apply_handler g lbl \<lparr>cls = t, message = None\<rparr> w of
           (Inl x, w') \<Rightarrow> (Inl x, w')
         | (Inr u, w') \<Rightarrow> (Inr True, w')))"
  by (simp add: dunder_exit_def instantiate_def report_interpolated)

theorem exit_without_value_witness:
  "interpolate ''test %s'' [PStr ''contextmanager''] = Inr ''test contextmanager'' \<and>
   dunder_exit (AllowFail ''test %s'' [PStr ''contextmanager''] (Some log) None)
       (Some ValueError) None setUp =
     (Inr True,
      \<lparr>records = [],
       store = [(''test contextmanager'', \<lparr>cls = ValueError, message = None\<rparr>)]\<rparr>)"
  using exit_without_value [where g = "AllowFail ''test %s'' [PStr ''contextmanager''] (Some log) None"
      and t = ValueError and w = setUp and lbl = "''test contextmanager''"]
  by (simp add: model
      setUp_def log_def)

text \<open>
  C10. When the block raises and the handler, applied to the interpolated label and the
  error of the block, raises \<open>h\<close> in turn, \<open>h\<close> leaves the \<^verbatim>\<open>with\<close> statement. When the
  interpolation of the label (a template of \<^verbatim>\<open>%s\<close>, \<^verbatim>\<open>%d\<close> and \<^verbatim>\<open>%%\<close>) raises \<open>x\<close>,
  \<open>x\<close> leaves the statement, in the world the block left: the handler is not entered.
\<close>

theorem with_stmt_reporting_failure_escapes:
  assumes "block w = (Inl e, w1)"
  shows "(interpolate (label g) (params g) = Inr lbl \<and> apply_handler g lbl e w1 = (Inl h, w2)
            \<longrightarrow> with_stmt g block w = (Inl h, w2)) \<and>
         (plain_conversions (label g) \<and> interpolate (label g) (params g) = Inl x
            \<longrightarrow> with_stmt g block w = (Inl x, w1))"
  by (simp add: with_stmt_raise [where block = block and w = w, OF assms]
      report_interpolated report_malformed)

theorem with_stmt_reporting_failure_escapes_witness:
  "raise_ValueError setUp = (Inl (instantiate ValueError), setUp) \<and>
   interpolate ''test %s'' [PStr ''contextmanager''] = Inr ''test contextmanager'' \<and>
   failing_handler ''test contextmanager'' (instantiate ValueError) setUp =
     (Inl handler_error,
      \<lparr>records = [], store = [(''test contextmanager'', instantiate ValueError)]\<rparr>) \<and>
   with_stmt (AllowFail ''test %s'' [PStr ''contextmanager''] (Some failing_handler) None)
       raise_ValueError setUp =
     (Inl handler_error,
      \<lparr>records = [], store = [(''test contextmanager'', instantiate ValueError)]\<rparr>) \<and>
   plain_conversions ''%s %s'' \<and>
   interpolate ''%s %s'' [PStr ''contextmanager''] =
     Inl \<lparr>cls = TypeError, message = Some ''not enough arguments for format string''\<rparr> \<and>
   with_stmt (AllowFail ''%s %s'' [PStr ''contextmanager''] (Some log) None)
       raise_ValueError setUp =
     (Inl \<lparr>cls = TypeError, message = Some ''not enough arguments for format string''\<rparr>,
      setUp)"
  using with_stmt_reporting_failure_escapes [where block = raise_ValueError and w = setUp
      and e = "instantiate ValueError" and ?w1.0 = setUp
      and g = "AllowFail ''test %s'' [PStr ''contextmanager''] (Some failing_handler) None"
      and lbl = "''test contextmanager''" and h = handler_error
      and ?w2.0 = "\<lparr>records = [], store = [(''test contextmanager'', instantiate ValueError)]\<rparr>"
      and x = handler_error]
    with_stmt_reporting_failure_escapes [where block = raise_ValueError and w = setUp
      and e = "instantiate ValueError" and ?w1.0 = setUp
      and g = "AllowFail ''%s %s'' [PStr ''contextmanager''] (Some log) None"
      and x = "\<lparr>cls = TypeError, message = Some ''not enough arguments for format string''\<rparr>"
      and lbl = "[]" and h = handler_error and ?w2.0 = setUp]
  by (simp add: model
      setUp_def log_def raise_ValueError_def handler_error_def failing_handler_def)

section \<open>Both modes\<close>

text \<open>
  C5, as the code has it. When the interpolation of the label (a template of \<^verbatim>\<open>%s\<close>,
  \<^verbatim>\<open>%d\<close> and \<^verbatim>\<open>%%\<close>) raises \<open>x\<close>: in a \<^verbatim>\<open>with\<close> statement whose block raised, \<open>x\<close> is
  raised out of the statement; in a protected call whose function raised an
  \<^verbatim>\<open>Exception\<close> \<open>e\<close>, \<open>x\<close> is raised inside the nested guard's block, which drops it
  after one warning on \<^verbatim>\<open>OnError\<close>, and the call returns \<^verbatim>\<open>(ok=False, result=e)\<close>.
\<close>

theorem malformed_label:
  assumes "plain_conversions (label g)"
    and "interpolate (label g) (params g) = Inl x"
  shows "(block w = (Inl e, w1) \<longrightarrow> with_stmt g block w = (Inl x, w1)) \<and>
    (fn_body fn args w = (Inl e, w1) \<and> is_Exception (cls e) \<longrightarrow>
       protect g fn args w =
         (Inr \<lparr>ok = False, result = Raised e\<rparr>,
          w1\<lparr>records := records w1 @
            [\<lparr>rec_name = ''OnError'', rec_level = WARNING, rec_msg = ''%s got an error: %s'',
              rec_args = [PStr (''On error handler: '' @ f_name fn), PExn x]\<rparr>]\<rparr>))"
proof (intro conjI impI)
  assume "block w = (Inl e, w1)"
  then show "with_stmt g block w = (Inl x, w1)"
    using assms(2) by (simp add: with_stmt_raise report_malformed)
next
  assume "fn_body fn args w = (Inl e, w1) \<and> is_Exception (cls e)"
  then have raised: "fn_body fn args w = (Inl e, w1)" and caught: "is_Exception (cls e)"
    by simp_all
  show "protect g fn args w =
         (Inr \<lparr>ok = False, result = Raised e\<rparr>,
          w1\<lparr>records := records w1 @
            [\<lparr>rec_name = ''OnError'', rec_level = WARNING, rec_msg = ''%s got an error: %s'',
              rec_args = [PStr (''On error handler: '' @ f_name fn), PExn x]\<rparr>]\<rparr>)"
    using assms(2) by (simp add: protect_caught [OF raised caught] report_malformed)
qed

theorem malformed_label_witness:
  "plain_conversions ''test'' \<and>
   interpolate ''test'' [PStr ''a''] =
     Inl \<lparr>cls = TypeError,
          message = Some ''not all arguments converted during string formatting''\<rparr> \<and>
   raise_ValueError setUp = (Inl (instantiate ValueError), setUp) \<and>
   with_stmt (AllowFail ''test'' [PStr ''a''] (Some log) None) raise_ValueError setUp =
     (Inl \<lparr>cls = TypeError,
           message = Some ''not all arguments converted during string formatting''\<rparr>, setUp) \<and>
   fn_body valueerror () setUp = (Inl test_exception, setUp) \<and>
   is_Exception (cls test_exception) \<and>
   protect (AllowFail ''test'' [PStr ''a''] None None) valueerror () setUp =
     (Inr \<lparr>ok = False, result = Raised test_exception\<rparr>,
      \<lparr>records =
         [\<lparr>rec_name = ''OnError'', rec_level = WARNING, rec_msg = ''%s got an error: %s'',
           rec_args =
             [PStr ''On error handler: valueerror'',
              PExn \<lparr>cls = TypeError,
                    message =
                      Some ''not all arguments converted during string formatting''\<rparr>]\<rparr>],
       store = []\<rparr>)"
  using malformed_label [where g = "AllowFail ''test'' [PStr ''a''] (Some log) None"
      and x = "\<lparr>cls = TypeError,
                message = Some ''not all arguments converted during string formatting''\<rparr>"
      and block = raise_ValueError and w = setUp and e = "instantiate ValueError"
      and ?w1.0 = setUp and fn = valueerror and args = "()"]
    malformed_label [where g = "AllowFail ''test'' [PStr ''a''] None None"
      and x = "\<lparr>cls = TypeError,
                message = Some ''not all arguments converted during string formatting''\<rparr>"
      and block = raise_ValueError and w = setUp and e = test_exception
      and ?w1.0 = setUp and fn = valueerror and args = "()"]
  by (simp add: model
      setUp_def log_def test_exception_def valueerror_def raise_ValueError_def)

text \<open>
  C5 as it is written lets the failure propagate in decorator mode too. With the template
  \<^verbatim>\<open>"test %"\<close> and no parameter the interpolation raises a \<^verbatim>\<open>ValueError\<close>, and the
  protected call returns normally.
\<close>

theorem malformed_label_contained_by_decorator:
  "plain_conversions ''test %'' \<and>
   interpolate ''test %'' [] = Inl \<lparr>cls = ValueError, message = Some ''incomplete format''\<rparr> \<and>
   protect (AllowFail ''test %'' [] (Some log) None) valueerror () setUp =
     (Inr \<lparr>ok = False, result = Raised test_exception\<rparr>,
      \<lparr>records =
         [\<lparr>rec_name = ''OnError'', rec_level = WARNING, rec_msg = ''%s got an error: %s'',
           rec_args =
             [PStr ''On error handler: valueerror'',
              PExn \<lparr>cls = ValueError, message = Some ''incomplete format''\<rparr>]\<rparr>],
       store = []\<rparr>)"
  by (simp add: model
      setUp_def log_def test_exception_def valueerror_def)

text \<open>
  C7. The handler of a guard built without \<^verbatim>\<open>on_error\<close> returns after handing one
  record to the guard's logger, \<^verbatim>\<open>OnError\<close> when no logger was given: a warning whose
  message reads as the label, \<^verbatim>\<open>" got an error: "\<close> and \<^verbatim>\<open>str(err)\<close>. When the label
  interpolates, that record is all that a failing block adds to the world, and all that a
  protected call whose function raised an \<^verbatim>\<open>Exception\<close> adds.
\<close>

theorem default_handler_warning:
  "apply_handler (AllowFail l ps None lg_opt) lbl e w =
     (Inr (),
      w\<lparr>records := records w @
        [\<lparr>rec_name = (case lg_opt of None \<Rightarrow> ''OnError'' | Some lg \<Rightarrow> logger_name lg),
          rec_level = WARNING, rec_msg = ''%s got an error: %s'',
          rec_args = [PStr lbl, PExn e]\<rparr>]\<rparr>) \<and>
   getMessage \<lparr>rec_name = n, rec_level = WARNING, rec_msg = ''%s got an error: %s'',
               rec_args = [PStr lbl, PExn e]\<rparr> =
     Inr (lbl @ '' got an error: '' @ str_exn e) \<and>
   (interpolate l ps = Inr lbl \<longrightarrow>
      (block w = (Inl e, w1) \<longrightarrow>
         with_stmt (AllowFail l ps None lg_opt) block w =
           (Inr (),
            w1\<lparr>records := records w1 @
              [\<lparr>rec_name = (case lg_opt of None \<Rightarrow> ''OnError'' | Some lg \<Rightarrow> logger_name lg),
                rec_level = WARNING, rec_msg = ''%s got an error: %s'',
                rec_args = [PStr lbl, PExn e]\<rparr>]\<rparr>)) \<and>
      (fn_body fn args w = (Inl e, w1) \<and> is_Exception (cls e) \<longrightarrow>
         protect (AllowFail l ps None lg_opt) fn args w =
           (Inr \<lparr>ok = False, result = Raised e\<rparr>,
            w1\<lparr>records := records w1 @
              [\<lparr>rec_name = (case lg_opt of None \<Rightarrow> ''OnError'' | Some lg \<Rightarrow> logger_name lg),
                rec_level = WARNING, rec_msg = ''%s got an error: %s'',
                rec_args = [PStr lbl, PExn e]\<rparr>]\<rparr>)))"
proof -
  let ?g = "AllowFail l ps None lg_opt :: 'a guard"
  let ?r = "\<lparr>rec_name = (case lg_opt of None \<Rightarrow> ''OnError'' | Some lg \<Rightarrow> logger_name lg),
          rec_level = WARNING, rec_msg = ''%s got an error: %s'',
          rec_args = [PStr lbl, PExn e]\<rparr>"
  have handler: "apply_handler ?g lbl e v = (Inr (), v\<lparr>records := records v @ [?r]\<rparr>)" for v
    by (simp add: apply_handler_def AllowFail_def on_error_def warning_def class_logger_def
        getLogger_def split: option.splits)
  have msg: "getMessage \<lparr>rec_name = n, rec_level = WARNING, rec_msg = ''%s got an error: %s'',
               rec_args = [PStr lbl, PExn e]\<rparr> = Inr (lbl @ '' got an error: '' @ str_exn e)"
    by (simp add: getMessage_def prepend_def)
  have lab: "label ?g = l" "params ?g = ps"
    by (simp_all add: AllowFail_def)
  have blk: "with_stmt ?g block w = (Inr (), w1\<lparr>records := records w1 @ [?r]\<rparr>)"
    if "interpolate l ps = Inr lbl" "block w = (Inl e, w1)"
    using that
    by (simp add: with_stmt_raise [where block = block and w = w and e = e and ?w1.0 = w1]
        report_interpolated [where g = ?g and lbl = lbl] lab handler)
  have dec: "protect ?g fn args w =
      (Inr \<lparr>ok = False, result = Raised e\<rparr>, w1\<lparr>records := records w1 @ [?r]\<rparr>)"
    if "interpolate l ps = Inr lbl" "fn_body fn args w = (Inl e, w1)" "is_Exception (cls e)"
    using that
    by (simp add: protect_caught [where fn = fn and args = args and w = w and e = e and ?w1.0 = w1]
        report_interpolated [where g = ?g and lbl = lbl] lab handler)
  from handler [of w] msg blk dec show ?thesis by blast
qed

theorem default_handler_warning_witness:
  "interpolate ''test %s'' [PStr ''valueerror''] = Inr ''test valueerror'' \<and>
   fn_body valueerror () setUp = (Inl test_exception, setUp) \<and>
   is_Exception (cls test_exception) \<and>
   protect (AllowFail ''test %s'' [PStr ''valueerror''] None None) valueerror () setUp =
     (Inr \<lparr>ok = False, result = Raised test_exception\<rparr>,
      \<lparr>records =
         [\<lparr>rec_name = ''OnError'', rec_level = WARNING, rec_msg = ''%s got an error: %s'',
           rec_args = [PStr ''test valueerror'', PExn test_exception]\<rparr>],
       store = []\<rparr>) \<and>
   getMessage \<lparr>rec_name = ''OnError'', rec_level = WARNING, rec_msg = ''%s got an error: %s'',
               rec_args = [PStr ''test valueerror'', PExn test_exception]\<rparr> =
     Inr ''test valueerror got an error: test exception'' \<and>
   raise_ValueError setUp = (Inl (instantiate ValueError), setUp) \<and>
   with_stmt (AllowFail ''test %s'' [PStr ''valueerror''] None (Some (getLogger ''mine'')))
       raise_ValueError setUp =
     (Inr (),
      \<lparr>records =
         [\<lparr>rec_name = ''mine'', rec_level = WARNING, rec_msg = ''%s got an error: %s'',
           rec_args = [PStr ''test valueerror'', PExn (instantiate ValueError)]\<rparr>],
       store = []\<rparr>)"
  using default_handler_warning [where l = "''test %s''" and ps = "[PStr ''valueerror'']"
      and lg_opt = None and lbl = "''test valueerror''" and e = test_exception and w = setUp
      and n = "''OnError''" and block = raise_ValueError and ?w1.0 = setUp
      and fn = valueerror and args = "()"]
    default_handler_warning [where l = "''test %s''" and ps = "[PStr ''valueerror'']"
      and lg_opt = "Some (getLogger ''mine'')" and lbl = "''test valueerror''"
      and e = "instantiate ValueError" and w = setUp
      and n = "''mine''" and block = raise_ValueError and ?w1.0 = setUp
      and fn = valueerror and args = "()"]
  by (simp add: model getMessage_def
      setUp_def test_exception_def valueerror_def raise_ValueError_def)

text \<open>
  C9. An exception of the wrapped function that is no \<^verbatim>\<open>Exception\<close>, as
  \<^verbatim>\<open>KeyboardInterrupt\<close> and \<^verbatim>\<open>SystemExit\<close>, leaves the protected call, with the world the
  function left and no result. \<^verbatim>\<open>__exit__\<close> never returns \<^verbatim>\<open>False\<close>; whenever it returns,
  the \<^verbatim>\<open>with\<close> statement completes normally, whatever the class of the exception of the
  block.
\<close>

theorem decorator_and_block_differ_on_signals:
  "(fn_body fn args w = (Inl e, w1) \<and> \<not> is_Exception (cls e) \<longrightarrow>
      protect g fn args w = (Inl e, w1)) \<and>
   \<not> is_Exception KeyboardInterrupt \<and> \<not> is_Exception SystemExit \<and>
   fst (dunder_exit g t v w) \<noteq> Inr False \<and>
   (block w = (Inl e, w1) \<and> dunder_exit g (Some (cls e)) (Some e) w1 = (Inr b, w2) \<longrightarrow>
      with_stmt g block w = (Inr (), w2))"
proof (intro conjI impI)
  assume "fn_body fn args w = (Inl e, w1) \<and> \<not> is_Exception (cls e)"
  then show "protect g fn args w = (Inl e, w1)"
    by (simp add: protect_def)
next
  show "fst (dunder_exit g t v w) \<noteq> Inr False"
    by (simp add: dunder_exit_def Let_def split: option.splits prod.splits sum.splits)
next
  assume a: "block w = (Inl e, w1) \<and> dunder_exit g (Some (cls e)) (Some e) w1 = (Inr b, w2)"
  then have "b"
    by (auto simp: dunder_exit_def split: prod.splits sum.splits)
  with a show "with_stmt g block w = (Inr (), w2)"
    by (simp add: with_stmt_def)
qed simp_all

theorem decorator_and_block_differ_on_signals_witness:
  "fn_body interrupted () setUp = (Inl (instantiate KeyboardInterrupt), setUp) \<and>
   \<not> is_Exception (cls (instantiate KeyboardInterrupt)) \<and>
   protect (AllowFail ''test %s'' [PStr ''signal''] (Some log) None) interrupted () setUp =
     (Inl (instantiate KeyboardInterrupt), setUp) \<and>
   raise_KeyboardInterrupt setUp = (Inl (instantiate KeyboardInterrupt), setUp) \<and>
   dunder_exit (AllowFail ''test %s'' [PStr ''signal''] (Some log) None)
       (Some KeyboardInterrupt) (Some (instantiate KeyboardInterrupt)) setUp =
     (Inr True,
      \<lparr>records = [], store = [(''test signal'', instantiate KeyboardInterrupt)]\<rparr>) \<and>
   with_stmt (AllowFail ''test %s'' [PStr ''signal''] (Some log) None)
       raise_KeyboardInterrupt setUp =
     (Inr (), \<lparr>records = [], store = [(''test signal'', instantiate KeyboardInterrupt)]\<rparr>)"
  using decorator_and_block_differ_on_signals [where fn = interrupted and args = "()"
      and w = setUp and e = "instantiate KeyboardInterrupt" and ?w1.0 = setUp
      and g = "AllowFail ''test %s'' [PStr ''signal''] (Some log) None"
      and t = "Some KeyboardInterrupt" and v = "Some (instantiate KeyboardInterrupt)"
      and block = raise_KeyboardInterrupt and b = True
      and ?w2.0 = "\<lparr>records = [], store = [(''test signal'', instantiate KeyboardInterrupt)]\<rparr>"]
  by (simp add: model
      setUp_def log_def interrupted_def raise_KeyboardInterrupt_def)

end
